theory Spec2Isabelle
  imports Complex_Main
begin

section \<open>Impact calculations (services/impactCalculations)\<close>

text \<open>
  The TypeScript type \<open>number\<close> is an IEEE-754 binary64 value. The program is embedded
  twice. In this section and the next, \<open>number\<close> is read as a mathematical real and
  every formula as exact arithmetic: rounding, overflow to Infinity and NaN do not exist
  there. Each numbered result (C1, C2, ...) proved on these definitions is stated so that
  the last bits of a binary64 computation cannot change it: it is structural, or it
  carries explicit ranges and margins. A lemma introduced as holding in exact arithmetic
  is a fact about the formulas only. A result that depends on rounding, underflow or
  overflow is proved on the binary64 embedding of the later sections.

  In the exact reading \<open>Math.pow\<close> with a literal integer exponent is \<open>^\<close>; with a
  fractional exponent it is \<open>powr\<close>, which agrees with the exact power on bases \<open>\<ge> 0\<close>
  (JavaScript yields NaN on a negative base). \<open>Math.log10\<close> is \<open>log 10\<close>, which agrees on
  positive arguments. The value drawn by \<open>Math.random()\<close> is an explicit argument \<open>rnd\<close>
  of every function that may draw it.
\<close>

definition ASTEROID_DENSITY :: real where
  "ASTEROID_DENSITY = 3000"

definition TNT_ENERGY :: real where
  "TNT_ENERGY = 4.184 * 10 ^ 9"

definition EARTH_OCEAN_COVERAGE :: real where
  "EARTH_OCEAN_COVERAGE = 0.71"

definition calculateMass :: "real \<Rightarrow> real" where
  "calculateMass diameter =
     (let radius = diameter / 2;
          volume = (4 / 3) * pi * radius ^ 3
      in volume * ASTEROID_DENSITY)"

definition calculateEnergy :: "real \<Rightarrow> real \<Rightarrow> real" where
  "calculateEnergy mass velocity =
     (let velocityMs = velocity * 1000;
          energyJoules = 0.5 * mass * velocityMs ^ 2;
          energyKilotons = energyJoules / TNT_ENERGY;
          energyMegatons = energyKilotons / 1000
      in energyMegatons)"

text \<open>The parameter \<open>velocity\<close> is unused in the source as well.\<close>

definition calculateCraterDiameter :: "real \<Rightarrow> real \<Rightarrow> real \<Rightarrow> bool \<Rightarrow> real" where
  "calculateCraterDiameter energy velocity angle isOcean =
     (let energyJoules = energy * 10 ^ 6 * TNT_ENERGY;
          angleRadians = (angle * pi) / 180;
          angleEfficiency = sin angleRadians powr (1 / 3);
          terrainFactor = (if isOcean then 0.8 else 1.0);
          scalingConstant = 1.8 / 10 ^ 3;
          diameter = scalingConstant * energyJoules powr 0.22 * angleEfficiency * terrainFactor
      in diameter / 1000)"

definition calculateCraterDepth :: "real \<Rightarrow> real" where
  "calculateCraterDepth diameter = diameter / 4"

definition calculateShockwaveRadius :: "real \<Rightarrow> real" where
  "calculateShockwaveRadius energy = energy powr 0.33 * 2.5"

definition calculateThermalRadius :: "real \<Rightarrow> real" where
  "calculateThermalRadius energy = energy powr 0.41 * 3.2"

definition calculateSeismicMagnitude :: "real \<Rightarrow> real" where
  "calculateSeismicMagnitude energy =
     (let energyJoules = energy * 10 ^ 6 * TNT_ENERGY
      in (2 / 3) * log 10 energyJoules - 2.9)"

text \<open>
  \<open>isOceanImpact\<close>: the three bounding boxes are tested in the source's order; the last
  line compares the random draw with the ocean coverage.
\<close>

definition isOceanImpact :: "real \<Rightarrow> real \<Rightarrow> real \<Rightarrow> bool" where
  "isOceanImpact lat lon rnd =
     (if (lon > 120 \<or> lon < - 70) \<and> \<bar>lat\<bar> < 60 then True
      else if (lon > - 70 \<and> lon < - 10) \<and> \<bar>lat\<bar> < 60 then True
      else if lon > 40 \<and> lon < 120 \<and> lat < 20 \<and> lat > - 50 then True
      else rnd < EARTH_OCEAN_COVERAGE)"

definition calculateTsunamiHeight :: "real \<Rightarrow> real \<Rightarrow> real \<Rightarrow> real" where
  "calculateTsunamiHeight energy craterDiameter waterDepth =
     (let energyFactor = energy powr 0.25;
          craterFactor = craterDiameter * 1000;
          initialHeight = min (craterFactor / 10) (waterDepth * 0.5)
      in initialHeight * energyFactor * 0.1)"

text \<open>\<open>Math.round\<close> rounds to the nearest integer, a half towards plus infinity.\<close>

definition Math_round :: "real \<Rightarrow> real" where
  "Math_round x = of_int \<lfloor>x + 1 / 2\<rfloor>"

definition populationDensities :: "(string \<times> real) list" where
  "populationDensities =
     [(''north_america'', 25), (''south_america'', 23), (''europe'', 73), (''africa'', 45),
      (''asia'', 150), (''oceania'', 5), (''ocean'', 0)]"

text \<open>
  The region starts as \<open>'ocean'\<close> and is reassigned by the first matching bucket, only
  when \<open>|lat| < 60\<close>. In \<open>populationDensities[region] || 0\<close> a missing key (undefined)
  and the number 0 are both falsy, and give the right operand.
\<close>

definition estimateAffectedPopulation :: "real \<Rightarrow> real \<Rightarrow> real \<Rightarrow> real \<Rightarrow> real" where
  "estimateAffectedPopulation lat lon shockwaveRadius thermalRadius =
     (let region =
            (if \<bar>lat\<bar> < 60 then
               (if lon > - 130 \<and> lon < - 60 \<and> lat > 15 then ''north_america''
                else if lon > - 80 \<and> lon < - 35 \<and> lat < 15 then ''south_america''
                else if lon > - 10 \<and> lon < 40 \<and> lat > 35 then ''europe''
                else if lon > - 20 \<and> lon < 50 \<and> lat < 35 \<and> lat > - 35 then ''africa''
                else if lon > 40 \<and> lon < 150 then ''asia''
                else if lon > 110 \<and> lon < 180 \<and> lat < - 10 then ''oceania''
                else ''ocean'')
             else ''ocean'');
          density =
            (case map_of populationDensities region of
               None \<Rightarrow> 0
             | Some v \<Rightarrow> (if v = 0 then 0 else v));
          affectedArea = pi * (max shockwaveRadius thermalRadius) ^ 2
      in Math_round (density * affectedArea))"

record AsteroidData =
  diameter :: real
  velocity :: real
  angle :: real
  impactLat :: real
  impactLon :: real

text \<open>
  The optional field \<open>tsunamiHeight?\<close> is an option. The flag is named
  \<open>isOceanImpactFlag\<close>, since \<open>isOceanImpact\<close> is the function above.
\<close>

record ImpactResults =
  mass :: real
  energy :: real
  craterDiameter :: real
  craterDepth :: real
  shockwaveRadius :: real
  seismicMagnitude :: real
  thermalRadius :: real
  isOceanImpactFlag :: bool
  tsunamiHeight :: "real option"
  affectedPopulation :: real

definition calculateImpact :: "AsteroidData \<Rightarrow> real \<Rightarrow> ImpactResults" where
  "calculateImpact data rnd =
     (let mass' = calculateMass (diameter data);
          energy' = calculateEnergy mass' (velocity data);
          isOcean = isOceanImpact (impactLat data) (impactLon data) rnd;
          craterDiameter' = calculateCraterDiameter energy' (velocity data) (angle data) isOcean;
          craterDepth' = calculateCraterDepth craterDiameter';
          shockwaveRadius' = calculateShockwaveRadius energy';
          thermalRadius' = calculateThermalRadius energy';
          seismicMagnitude' = calculateSeismicMagnitude energy';
          results = \<lparr> mass = mass', energy = energy', craterDiameter = craterDiameter',
                      craterDepth = craterDepth', shockwaveRadius = shockwaveRadius',
                      seismicMagnitude = seismicMagnitude', thermalRadius = thermalRadius',
                      isOceanImpactFlag = isOcean, tsunamiHeight = None,
                      affectedPopulation =
                        estimateAffectedPopulation (impactLat data) (impactLon data)
                          shockwaveRadius' thermalRadius' \<rparr>
      in if isOcean
         then results \<lparr> tsunamiHeight := Some (calculateTsunamiHeight energy' craterDiameter' 4000) \<rparr>
         else results)"


section \<open>Mitigation strategies (services/mitigationService)\<close>

datatype MitigationStrategy =
  none | kinetic_impactor | nuclear_device | gravity_tractor | ion_beam

text \<open>
  The record is polymorphic in the representation of \<open>number\<close>, so that both embeddings
  return it.
\<close>

record 'n MitigationResult =
  strategy :: MitigationStrategy
  successProbability :: 'n
  velocityChange :: 'n
  trajectoryDeflection :: 'n
  warningTimeNeeded :: 'n
  description :: string
  energyReduction :: 'n

definition calculateKineticImpactor :: "real \<Rightarrow> real \<Rightarrow> real \<Rightarrow> real MitigationResult" where
  "calculateKineticImpactor asteroidMass asteroidVelocity warningTime =
     (let spacecraftMass = 500;
          spacecraftVelocity = 10000;
          beta = 1.5;
          velocityChange' = beta * (spacecraftMass * spacecraftVelocity) / asteroidMass;
          timeSeconds = warningTime * 365.25 * 24 * 3600;
          trajectoryDeflection' = (velocityChange' * timeSeconds) / 1000;
          successProbability' = min (warningTime / 5) 0.95;
          velocityRatio = velocityChange' / (asteroidVelocity * 1000);
          energyReduction' = (2 * velocityRatio - velocityRatio * velocityRatio) * 100
      in \<lparr> strategy = kinetic_impactor,
           successProbability = successProbability',
           velocityChange = velocityChange',
           trajectoryDeflection = trajectoryDeflection',
           warningTimeNeeded = 5,
           description = ''High-speed spacecraft collision to change asteroid momentum. Most viable current technology.'',
           energyReduction = energyReduction' \<rparr>)"

text \<open>
  As in the source, \<open>asteroidRadius\<close> and \<open>surfaceArea\<close> are computed from the diameter
  and never read.
\<close>

definition calculateNuclearDevice :: "real \<Rightarrow> real \<Rightarrow> real \<Rightarrow> real MitigationResult" where
  "calculateNuclearDevice asteroidMass asteroidDiameter warningTime =
     (let yieldJoules = 4.184 * 10 ^ 15;
          efficiency = 0.1;
          asteroidRadius = asteroidDiameter / 2;
          surfaceArea = 4 * pi * asteroidRadius ^ 2;
          impulse = efficiency * yieldJoules / 1000;
          velocityChange' = impulse / asteroidMass;
          timeSeconds = warningTime * 365.25 * 24 * 3600;
          trajectoryDeflection' = (velocityChange' * timeSeconds) / 1000;
          successProbability' = min (warningTime / 3) 0.90;
          energyReduction' = min ((velocityChange' / 1000) * 50) 15
      in \<lparr> strategy = nuclear_device,
           successProbability = successProbability',
           velocityChange = velocityChange',
           trajectoryDeflection = trajectoryDeflection',
           warningTimeNeeded = 3,
           description = ''Nuclear standoff burst to vaporize surface material and create thrust. High-risk, high-reward option.'',
           energyReduction = energyReduction' \<rparr>)"

definition calculateGravityTractor :: "real \<Rightarrow> real \<Rightarrow> real MitigationResult" where
  "calculateGravityTractor asteroidMass warningTime =
     (let spacecraftMass = 1000;
          G = 6.674 / 10 ^ 11;
          distance = 100;
          force = (G * spacecraftMass * asteroidMass) / distance ^ 2;
          acceleration = force / asteroidMass;
          operatingTime = warningTime * 365.25 * 24 * 3600;
          velocityChange' = acceleration * operatingTime;
          trajectoryDeflection' = (velocityChange' * operatingTime) / 2000;
          successProbability' = min (warningTime / 10) 0.85;
          energyReduction' = min ((velocityChange' / 100) * 5) 8
      in \<lparr> strategy = gravity_tractor,
           successProbability = successProbability',
           velocityChange = velocityChange',
           trajectoryDeflection = trajectoryDeflection',
           warningTimeNeeded = 10,
           description = ''Spacecraft uses gravitational attraction to slowly pull asteroid off course. Requires very long warning time.'',
           energyReduction = energyReduction' \<rparr>)"

definition calculateIonBeam :: "real \<Rightarrow> real \<Rightarrow> real \<Rightarrow> real MitigationResult" where
  "calculateIonBeam asteroidMass asteroidDiameter warningTime =
     (let thrust = 0.5;
          efficiency = 0.7;
          effectiveThrust = thrust * efficiency;
          acceleration = effectiveThrust / asteroidMass;
          operatingTime = warningTime * 365.25 * 24 * 3600;
          velocityChange' = acceleration * operatingTime;
          trajectoryDeflection' = (velocityChange' * operatingTime) / 2000;
          successProbability' = min (warningTime / 8) 0.80;
          energyReduction' = min ((velocityChange' / 100) * 6) 10
      in \<lparr> strategy = ion_beam,
           successProbability = successProbability',
           velocityChange = velocityChange',
           trajectoryDeflection = trajectoryDeflection',
           warningTimeNeeded = 8,
           description = ''Ion beam directed at asteroid surface to create ablation thrust. Experimental but promising technology.'',
           energyReduction = energyReduction' \<rparr>)"

text \<open>
  \<open>null\<close> is \<open>None\<close>. The \<open>default\<close> branch of the source's switch cannot be reached by
  a value of the type \<open>MitigationStrategy\<close>, so the five equations cover the function.
\<close>

fun calculateMitigation ::
  "MitigationStrategy \<Rightarrow> real \<Rightarrow> real \<Rightarrow> real \<Rightarrow> real \<Rightarrow> real MitigationResult option" where
  "calculateMitigation none asteroidMass asteroidDiameter asteroidVelocity warningTime = None"
| "calculateMitigation kinetic_impactor asteroidMass asteroidDiameter asteroidVelocity warningTime =
     Some (calculateKineticImpactor asteroidMass asteroidVelocity warningTime)"
| "calculateMitigation nuclear_device asteroidMass asteroidDiameter asteroidVelocity warningTime =
     Some (calculateNuclearDevice asteroidMass asteroidDiameter warningTime)"
| "calculateMitigation gravity_tractor asteroidMass asteroidDiameter asteroidVelocity warningTime =
     Some (calculateGravityTractor asteroidMass warningTime)"
| "calculateMitigation ion_beam asteroidMass asteroidDiameter asteroidVelocity warningTime =
     Some (calculateIonBeam asteroidMass asteroidDiameter warningTime)"

section \<open>Binary64 arithmetic\<close>

text \<open>
  A binary64 value is \<open>NaN\<close>, an infinity \<open>Inf s\<close> or a finite \<open>Fin s m e\<close>, which denotes
  \<open>(-1)^s * m * 2^e\<close> (\<open>s\<close> is the sign bit, \<open>m \<ge> 0\<close>). The values of the format are the
  canonical ones: \<open>m < 2^53\<close> and \<open>e \<ge> -1074\<close>, with \<open>m \<ge> 2^52\<close> (normal) or \<open>e = -1074\<close>
  (subnormal; the zeros are \<open>Fin s 0 (-1074)\<close>), and \<open>e \<le> 971\<close>. Every operation below
  returns a canonical value, so equal numbers other than the two zeros are equal terms.
\<close>

datatype f64 = Fin bool int int | Inf bool | NaN

text \<open>\<open>bits n\<close> is the number of binary digits of \<open>n\<close>.\<close>

function bits :: "int \<Rightarrow> int" where
  "bits n = (if n \<le> 0 then 0 else 1 + bits (n div 2))"
  by pat_completeness auto
termination
  by (relation "measure nat") auto

declare bits.simps [simp del]

text \<open>
  \<open>round_f64 s M E\<close> rounds the exact value \<open>(-1)^s * M * 2^E\<close> (\<open>M \<ge> 0\<close>) to the nearest
  binary64 value, a tie to the even significand. The result's exponent is \<open>e'\<close>; when it
  exceeds \<open>E\<close> the low \<open>e' - E\<close> digits of \<open>M\<close> are rounded away. A significand rounded up
  to \<open>2^53\<close> moves to the next exponent, and an exponent above 971 is an overflow to
  Infinity.
\<close>

definition round_f64 :: "bool \<Rightarrow> int \<Rightarrow> int \<Rightarrow> f64" where
  "round_f64 s M E =
     (if M = 0 then Fin s 0 (- 1074)
      else
        let e' = max (E + bits M - 53) (- 1074);
            q = (if e' \<le> E then M * 2 ^ nat (E - e')
                 else
                   let sh = nat (e' - E);
                       t = M div 2 ^ sh;
                       r = M mod 2 ^ sh;
                       half = 2 ^ (sh - 1)
                   in if r > half \<or> (r = half \<and> odd t) then t + 1 else t);
            m'' = (if q = 2 ^ 53 then 2 ^ 52 else q);
            e'' = (if q = 2 ^ 53 then e' + 1 else e')
        in if e'' > 971 then Inf s else Fin s m'' e'')"

text \<open>
  \<open>round_ratio s p q E\<close> rounds \<open>(-1)^s * (p / q) * 2^E\<close> for \<open>p \<ge> 0\<close> and \<open>q > 0\<close>. The
  quotient is taken to at least 55 binary digits and a last digit records a nonzero
  remainder, so the rounding of the truncated quotient is the rounding of the exact one.
\<close>

definition round_ratio :: "bool \<Rightarrow> int \<Rightarrow> int \<Rightarrow> int \<Rightarrow> f64" where
  "round_ratio s p q E =
     (let k = 55 + bits q;
          a = p * 2 ^ nat k;
          t = a div q;
          r = a mod q
      in round_f64 s (2 * t + (if r = 0 then 0 else 1)) (E - k - 1))"

text \<open>
  \<open>num n\<close> is the integer literal \<open>n\<close> and \<open>lit p k\<close> the decimal literal \<open>p / 10^k\<close>
  (\<open>lit 6674 14\<close> is \<open>6.674e-11\<close>): the nearest binary64 value, as JavaScript reads a
  numeric literal.
\<close>

definition num :: "int \<Rightarrow> f64" where
  "num n = round_f64 (n < 0) \<bar>n\<bar> 0"

definition lit :: "int \<Rightarrow> nat \<Rightarrow> f64" where
  "lit p k = round_ratio (p < 0) \<bar>p\<bar> (10 ^ k) 0"

text \<open>\<open>Math.PI\<close> is 3.141592653589793, the binary64 value \<open>0x400921FB54442D18\<close>.\<close>

definition Math_PI_f64 :: f64 where
  "Math_PI_f64 = Fin False 7074237752028440 (- 51)"

text \<open>Multiplication and division: the exact result, rounded once.\<close>

fun fmul :: "f64 \<Rightarrow> f64 \<Rightarrow> f64" where
  "fmul NaN y = NaN"
| "fmul x NaN = NaN"
| "fmul (Inf s) (Inf t) = Inf (s \<noteq> t)"
| "fmul (Inf s) (Fin t n f) = (if n = 0 then NaN else Inf (s \<noteq> t))"
| "fmul (Fin s m e) (Inf t) = (if m = 0 then NaN else Inf (s \<noteq> t))"
| "fmul (Fin s m e) (Fin t n f) = round_f64 (s \<noteq> t) (m * n) (e + f)"

fun fdiv :: "f64 \<Rightarrow> f64 \<Rightarrow> f64" where
  "fdiv NaN y = NaN"
| "fdiv x NaN = NaN"
| "fdiv (Inf s) (Inf t) = NaN"
| "fdiv (Inf s) (Fin t n f) = Inf (s \<noteq> t)"
| "fdiv (Fin s m e) (Inf t) = Fin (s \<noteq> t) 0 (- 1074)"
| "fdiv (Fin s m e) (Fin t n f) =
     (if n = 0 then (if m = 0 then NaN else Inf (s \<noteq> t))
      else round_ratio (s \<noteq> t) m n (e - f))"

text \<open>
  Addition aligns the two significands at the smaller exponent. An exact sum of zero is
  \<open>+0\<close>, unless both operands are negative.
\<close>

fun fneg :: "f64 \<Rightarrow> f64" where
  "fneg (Fin s m e) = Fin (\<not> s) m e"
| "fneg (Inf s) = Inf (\<not> s)"
| "fneg NaN = NaN"

fun fadd :: "f64 \<Rightarrow> f64 \<Rightarrow> f64" where
  "fadd NaN y = NaN"
| "fadd x NaN = NaN"
| "fadd (Inf s) (Inf t) = (if s = t then Inf s else NaN)"
| "fadd (Inf s) (Fin t n f) = Inf s"
| "fadd (Fin s m e) (Inf t) = Inf t"
| "fadd (Fin s m e) (Fin t n f) =
     (let g = min e f;
          a = (if s then - m else m) * 2 ^ nat (e - g) + (if t then - n else n) * 2 ^ nat (f - g)
      in if a = 0 then Fin (s \<and> t) 0 (- 1074) else round_f64 (a < 0) \<bar>a\<bar> g)"

definition fsub :: "f64 \<Rightarrow> f64 \<Rightarrow> f64" where
  "fsub x y = fadd x (fneg y)"

text \<open>
  Comparison. A canonical finite value is an integer multiple of \<open>2^(-1074)\<close>; \<open>units\<close> is
  that multiple, with the infinities beyond every finite value. Every comparison with
  \<open>NaN\<close> is false.
\<close>

fun units :: "f64 \<Rightarrow> int" where
  "units (Fin s m e) = (if s then - 1 else 1) * m * 2 ^ nat (e + 1074)"
| "units (Inf s) = (if s then - 1 else 1) * 2 ^ 2100"
| "units NaN = 0"

fun isNaN :: "f64 \<Rightarrow> bool" where
  "isNaN NaN = True"
| "isNaN x = False"

fun negative :: "f64 \<Rightarrow> bool" where
  "negative (Fin s m e) = s"
| "negative (Inf s) = s"
| "negative NaN = False"

definition flt :: "f64 \<Rightarrow> f64 \<Rightarrow> bool" where
  "flt x y = (\<not> isNaN x \<and> \<not> isNaN y \<and> units x < units y)"

definition fgt :: "f64 \<Rightarrow> f64 \<Rightarrow> bool" where
  "fgt x y = flt y x"

definition fge :: "f64 \<Rightarrow> f64 \<Rightarrow> bool" where
  "fge x y = (\<not> isNaN x \<and> \<not> isNaN y \<and> units y \<le> units x)"

text \<open>
  \<open>Math.abs\<close>, \<open>Math.max\<close> and \<open>Math.min\<close>: \<open>NaN\<close> if an argument is \<open>NaN\<close>, and \<open>+0\<close> is
  larger than \<open>-0\<close>.
\<close>

fun Math_abs_f64 :: "f64 \<Rightarrow> f64" where
  "Math_abs_f64 (Fin s m e) = Fin False m e"
| "Math_abs_f64 (Inf s) = Inf False"
| "Math_abs_f64 NaN = NaN"

definition Math_max_f64 :: "f64 \<Rightarrow> f64 \<Rightarrow> f64" where
  "Math_max_f64 x y =
     (if isNaN x \<or> isNaN y then NaN
      else if units y < units x then x
      else if units x < units y then y
      else if negative x then y else x)"

definition Math_min_f64 :: "f64 \<Rightarrow> f64 \<Rightarrow> f64" where
  "Math_min_f64 x y =
     (if isNaN x \<or> isNaN y then NaN
      else if units x < units y then x
      else if units y < units x then y
      else if negative x then x else y)"

text \<open>
  \<open>Math.pow\<close> with a literal natural exponent. ECMAScript leaves the accuracy of
  \<open>Math.pow\<close> to the implementation; here it is the exact power, rounded once. The
  evaluations below do not depend on its last bit: \<open>Math.pow(100, 2)\<close> is exact, and the
  underflow and the overflow they show are far from the thresholds.
\<close>

fun Math_pow_f64 :: "f64 \<Rightarrow> nat \<Rightarrow> f64" where
  "Math_pow_f64 NaN n = (if n = 0 then num 1 else NaN)"
| "Math_pow_f64 (Inf s) n = (if n = 0 then num 1 else Inf (s \<and> odd n))"
| "Math_pow_f64 (Fin s m e) n = round_f64 (s \<and> odd n) (m ^ n) (e * int n)"

text \<open>
  \<open>Math.round\<close>: the integer \<open>\<lfloor>x + 1/2\<rfloor>\<close> of the exact value, with the sign of \<open>x\<close> when it
  is zero. A value with \<open>e \<ge> 0\<close> is an integer already.
\<close>

fun Math_round_f64 :: "f64 \<Rightarrow> f64" where
  "Math_round_f64 NaN = NaN"
| "Math_round_f64 (Inf s) = Inf s"
| "Math_round_f64 (Fin s m e) =
     (if 0 \<le> e then Fin s m e
      else
        let a = (if s then - m else m);
            n = (2 * a + 2 ^ nat (- e)) div 2 ^ nat (1 - e)
        in if n = 0 then Fin s 0 (- 1074) else round_f64 (n < 0) \<bar>n\<bar> 0)"

text \<open>The operand of \<open>||\<close> is falsy when it is \<open>NaN\<close> or a zero.\<close>

definition falsy :: "f64 \<Rightarrow> bool" where
  "falsy x = (isNaN x \<or> (case x of Fin s m e \<Rightarrow> m = 0 | _ \<Rightarrow> False))"

section \<open>The calculators over binary64\<close>


definition populationDensities_f64 :: "(string \<times> f64) list" where
  "populationDensities_f64 =
     [(''north_america'', num 25), (''south_america'', num 23), (''europe'', num 73),
      (''africa'', num 45), (''asia'', num 150), (''oceania'', num 5), (''ocean'', num 0)]"

definition estimateAffectedPopulation_f64 :: "f64 \<Rightarrow> f64 \<Rightarrow> f64 \<Rightarrow> f64 \<Rightarrow> f64" where
  "estimateAffectedPopulation_f64 lat lon shockwaveRadius' thermalRadius' =
     (let region =
            (if flt (Math_abs_f64 lat) (num 60) then
               (if fgt lon (num (- 130)) \<and> flt lon (num (- 60)) \<and> fgt lat (num 15)
                  then ''north_america''
                else if fgt lon (num (- 80)) \<and> flt lon (num (- 35)) \<and> flt lat (num 15)
                  then ''south_america''
                else if fgt lon (num (- 10)) \<and> flt lon (num 40) \<and> fgt lat (num 35)
                  then ''europe''
                else if fgt lon (num (- 20)) \<and> flt lon (num 50) \<and> flt lat (num 35)
                        \<and> fgt lat (num (- 35))
                  then ''africa''
                else if fgt lon (num 40) \<and> flt lon (num 150) then ''asia''
                else if fgt lon (num 110) \<and> flt lon (num 180) \<and> flt lat (num (- 10))
                  then ''oceania''
                else ''ocean'')
             else ''ocean'');
          density =
            (case map_of populationDensities_f64 region of
               None \<Rightarrow> num 0
             | Some v \<Rightarrow> (if falsy v then num 0 else v));
          affectedArea =
            fmul Math_PI_f64 (Math_pow_f64 (Math_max_f64 shockwaveRadius' thermalRadius') 2)
      in Math_round_f64 (fmul density affectedArea))"

definition calculateKineticImpactor_f64 :: "f64 \<Rightarrow> f64 \<Rightarrow> f64 \<Rightarrow> f64 MitigationResult" where
  "calculateKineticImpactor_f64 asteroidMass asteroidVelocity warningTime =
     (let spacecraftMass = num 500;
          spacecraftVelocity = num 10000;
          beta = lit 15 1;
          velocityChange' = fdiv (fmul beta (fmul spacecraftMass spacecraftVelocity)) asteroidMass;
          timeSeconds = fmul (fmul (fmul warningTime (lit 36525 2)) (num 24)) (num 3600);
          trajectoryDeflection' = fdiv (fmul velocityChange' timeSeconds) (num 1000);
          successProbability' = Math_min_f64 (fdiv warningTime (num 5)) (lit 95 2);
          velocityRatio = fdiv velocityChange' (fmul asteroidVelocity (num 1000));
          energyReduction' =
            fmul (fsub (fmul (num 2) velocityRatio) (fmul velocityRatio velocityRatio)) (num 100)
      in \<lparr> strategy = kinetic_impactor,
           successProbability = successProbability',
           velocityChange = velocityChange',
           trajectoryDeflection = trajectoryDeflection',
           warningTimeNeeded = num 5,
           description = ''High-speed spacecraft collision to change asteroid momentum. Most viable current technology.'',
           energyReduction = energyReduction' \<rparr>)"

definition calculateNuclearDevice_f64 :: "f64 \<Rightarrow> f64 \<Rightarrow> f64 \<Rightarrow> f64 MitigationResult" where
  "calculateNuclearDevice_f64 asteroidMass asteroidDiameter warningTime =
     (let yieldJoules = num 4184000000000000;
          efficiency = lit 1 1;
          asteroidRadius = fdiv asteroidDiameter (num 2);
          surfaceArea = fmul (fmul (num 4) Math_PI_f64) (Math_pow_f64 asteroidRadius 2);
          impulse = fdiv (fmul efficiency yieldJoules) (num 1000);
          velocityChange' = fdiv impulse asteroidMass;
          timeSeconds = fmul (fmul (fmul warningTime (lit 36525 2)) (num 24)) (num 3600);
          trajectoryDeflection' = fdiv (fmul velocityChange' timeSeconds) (num 1000);
          successProbability' = Math_min_f64 (fdiv warningTime (num 3)) (lit 90 2);
          energyReduction' = Math_min_f64 (fmul (fdiv velocityChange' (num 1000)) (num 50)) (num 15)
      in \<lparr> strategy = nuclear_device,
           successProbability = successProbability',
           velocityChange = velocityChange',
           trajectoryDeflection = trajectoryDeflection',
           warningTimeNeeded = num 3,
           description = ''Nuclear standoff burst to vaporize surface material and create thrust. High-risk, high-reward option.'',
           energyReduction = energyReduction' \<rparr>)"

definition calculateGravityTractor_f64 :: "f64 \<Rightarrow> f64 \<Rightarrow> f64 MitigationResult" where
  "calculateGravityTractor_f64 asteroidMass warningTime =
     (let spacecraftMass = num 1000;
          G = lit 6674 14;
          distance = num 100;
          force = fdiv (fmul (fmul G spacecraftMass) asteroidMass) (Math_pow_f64 distance 2);
          acceleration = fdiv force asteroidMass;
          operatingTime = fmul (fmul (fmul warningTime (lit 36525 2)) (num 24)) (num 3600);
          velocityChange' = fmul acceleration operatingTime;
          trajectoryDeflection' = fdiv (fmul velocityChange' operatingTime) (num 2000);
          successProbability' = Math_min_f64 (fdiv warningTime (num 10)) (lit 85 2);
          energyReduction' = Math_min_f64 (fmul (fdiv velocityChange' (num 100)) (num 5)) (num 8)
      in \<lparr> strategy = gravity_tractor,
           successProbability = successProbability',
           velocityChange = velocityChange',
           trajectoryDeflection = trajectoryDeflection',
           warningTimeNeeded = num 10,
           description = ''Spacecraft uses gravitational attraction to slowly pull asteroid off course. Requires very long warning time.'',
           energyReduction = energyReduction' \<rparr>)"

definition calculateIonBeam_f64 :: "f64 \<Rightarrow> f64 \<Rightarrow> f64 \<Rightarrow> f64 MitigationResult" where
  "calculateIonBeam_f64 asteroidMass asteroidDiameter warningTime =
     (let thrust = lit 5 1;
          efficiency = lit 7 1;
          effectiveThrust = fmul thrust efficiency;
          acceleration = fdiv effectiveThrust asteroidMass;
          operatingTime = fmul (fmul (fmul warningTime (lit 36525 2)) (num 24)) (num 3600);
          velocityChange' = fmul acceleration operatingTime;
          trajectoryDeflection' = fdiv (fmul velocityChange' operatingTime) (num 2000);
          successProbability' = Math_min_f64 (fdiv warningTime (num 8)) (lit 80 2);
          energyReduction' = Math_min_f64 (fmul (fdiv velocityChange' (num 100)) (num 6)) (num 10)
      in \<lparr> strategy = ion_beam,
           successProbability = successProbability',
           velocityChange = velocityChange',
           trajectoryDeflection = trajectoryDeflection',
           warningTimeNeeded = num 8,
           description = ''Ion beam directed at asteroid surface to create ablation thrust. Experimental but promising technology.'',
           energyReduction = energyReduction' \<rparr>)"

fun calculateMitigation_f64 ::
  "MitigationStrategy \<Rightarrow> f64 \<Rightarrow> f64 \<Rightarrow> f64 \<Rightarrow> f64 \<Rightarrow> f64 MitigationResult option" where
  "calculateMitigation_f64 none asteroidMass asteroidDiameter asteroidVelocity warningTime = None"
| "calculateMitigation_f64 kinetic_impactor asteroidMass asteroidDiameter asteroidVelocity warningTime =
     Some (calculateKineticImpactor_f64 asteroidMass asteroidVelocity warningTime)"
| "calculateMitigation_f64 nuclear_device asteroidMass asteroidDiameter asteroidVelocity warningTime =
     Some (calculateNuclearDevice_f64 asteroidMass asteroidDiameter warningTime)"
| "calculateMitigation_f64 gravity_tractor asteroidMass asteroidDiameter asteroidVelocity warningTime =
     Some (calculateGravityTractor_f64 asteroidMass warningTime)"
| "calculateMitigation_f64 ion_beam asteroidMass asteroidDiameter asteroidVelocity warningTime =
     Some (calculateIonBeam_f64 asteroidMass asteroidDiameter warningTime)"

section \<open>Properties of the impact calculator\<close>

subsection \<open>Sign and monotonicity of the formulas\<close>

lemma calculateMass_pos: "0 < d \<Longrightarrow> 0 < calculateMass d"
  by (simp add: calculateMass_def ASTEROID_DENSITY_def Let_def)


lemma calculateEnergy_pos: "0 < m \<Longrightarrow> 0 < v \<Longrightarrow> 0 < calculateEnergy m v"
  by (simp add: calculateEnergy_def TNT_ENERGY_def Let_def)


lemma sin_degrees_pos:
  assumes "0 < a" and "a \<le> 90"
  shows "0 < sin ((a * pi) / 180)"
proof -
  have "0 < (a * pi) / 180" using assms(1) pi_gt_zero by simp
  moreover have "(a * pi) / 180 \<le> pi / 2" using assms(2) pi_gt_zero by simp
  then have "(a * pi) / 180 < pi" using pi_gt_zero by linarith
  ultimately show ?thesis by (rule sin_gt_zero)
qed




lemma calculateCraterDiameter_pos:
  assumes "0 < e" and "0 < a" and "a \<le> 90"
  shows "0 < calculateCraterDiameter e v a oc"
proof -
  have "e * 10 ^ 6 * TNT_ENERGY \<noteq> 0" using assms(1) by (simp add: TNT_ENERGY_def)
  then have p: "0 < (e * 10 ^ 6 * TNT_ENERGY) powr 0.22" by simp
  have "0 < sin ((a * pi) / 180)" using assms(2,3) by (rule sin_degrees_pos)
  then have s: "0 < sin ((a * pi) / 180) powr (1 / 3)" by simp
  show ?thesis
    unfolding calculateCraterDiameter_def Let_def using p s by simp
qed

lemma calculateCraterDiameter_ocean:
  "calculateCraterDiameter e v a True = 0.8 * calculateCraterDiameter e v a False"
  by (simp add: calculateCraterDiameter_def Let_def)

subsection \<open>The fields of the result\<close>

lemma calculateImpact_fields:
  "mass (calculateImpact data rnd) = calculateMass (diameter data)"
  "energy (calculateImpact data rnd) = calculateEnergy (calculateMass (diameter data)) (velocity data)"
  "craterDiameter (calculateImpact data rnd) =
     calculateCraterDiameter (calculateEnergy (calculateMass (diameter data)) (velocity data))
       (velocity data) (angle data) (isOceanImpact (impactLat data) (impactLon data) rnd)"
  "craterDepth (calculateImpact data rnd) = calculateCraterDepth (craterDiameter (calculateImpact data rnd))"
  "shockwaveRadius (calculateImpact data rnd) =
     calculateShockwaveRadius (calculateEnergy (calculateMass (diameter data)) (velocity data))"
  "thermalRadius (calculateImpact data rnd) =
     calculateThermalRadius (calculateEnergy (calculateMass (diameter data)) (velocity data))"
  "seismicMagnitude (calculateImpact data rnd) =
     calculateSeismicMagnitude (calculateEnergy (calculateMass (diameter data)) (velocity data))"
  "isOceanImpactFlag (calculateImpact data rnd) = isOceanImpact (impactLat data) (impactLon data) rnd"
  "affectedPopulation (calculateImpact data rnd) =
     estimateAffectedPopulation (impactLat data) (impactLon data)
       (calculateShockwaveRadius (calculateEnergy (calculateMass (diameter data)) (velocity data)))
       (calculateThermalRadius (calculateEnergy (calculateMass (diameter data)) (velocity data)))"
  "tsunamiHeight (calculateImpact data rnd) =
     (if isOceanImpact (impactLat data) (impactLon data) rnd
      then Some (calculateTsunamiHeight (calculateEnergy (calculateMass (diameter data)) (velocity data))
                  (craterDiameter (calculateImpact data rnd)) 4000)
      else None)"
  by (simp_all add: calculateImpact_def Let_def)

lemma isOceanImpact_in_box:
  assumes "((lon > 120 \<or> lon < - 70) \<and> \<bar>lat\<bar> < 60)
      \<or> (- 70 < lon \<and> lon < - 10 \<and> \<bar>lat\<bar> < 60)
      \<or> (40 < lon \<and> lon < 120 \<and> - 50 < lat \<and> lat < 20)"
  shows "isOceanImpact lat lon rnd"
  using assms by (auto simp add: isOceanImpact_def)

lemma calculateImpact_same_flag:
  assumes "isOceanImpact (impactLat data) (impactLon data) r1
         = isOceanImpact (impactLat data) (impactLon data) r2"
  shows "calculateImpact data r1 = calculateImpact data r2"
  using assms by (simp add: calculateImpact_def Let_def)

subsection \<open>Reproducibility\<close>

text \<open>
  C1. For every fixed AsteroidData input, any two invocations of \<open>calculateImpact\<close>, whatever
  \<open>Math.random\<close> draws in each, return equal mass, energy, shockwaveRadius, thermalRadius,
  seismicMagnitude and affectedPopulation. The isOceanImpact flag and the fields computed
  from it (craterDiameter through the terrain factor, craterDepth, tsunamiHeight) can differ
  only when the coordinates fall outside all three ocean bounding boxes: inside a box the
  two results are equal in every field.
\<close>

theorem calculateImpact_reproducible:
  "mass (calculateImpact data r1) = mass (calculateImpact data r2)
   \<and> energy (calculateImpact data r1) = energy (calculateImpact data r2)
   \<and> shockwaveRadius (calculateImpact data r1) = shockwaveRadius (calculateImpact data r2)
   \<and> thermalRadius (calculateImpact data r1) = thermalRadius (calculateImpact data r2)
   \<and> seismicMagnitude (calculateImpact data r1) = seismicMagnitude (calculateImpact data r2)
   \<and> affectedPopulation (calculateImpact data r1) = affectedPopulation (calculateImpact data r2)
   \<and> (((impactLon data > 120 \<or> impactLon data < - 70) \<and> \<bar>impactLat data\<bar> < 60)
        \<or> (- 70 < impactLon data \<and> impactLon data < - 10 \<and> \<bar>impactLat data\<bar> < 60)
        \<or> (40 < impactLon data \<and> impactLon data < 120 \<and> - 50 < impactLat data \<and> impactLat data < 20)
       \<longrightarrow> calculateImpact data r1 = calculateImpact data r2)"
proof -
  have "calculateImpact data r1 = calculateImpact data r2"
    if "((impactLon data > 120 \<or> impactLon data < - 70) \<and> \<bar>impactLat data\<bar> < 60)
        \<or> (- 70 < impactLon data \<and> impactLon data < - 10 \<and> \<bar>impactLat data\<bar> < 60)
        \<or> (40 < impactLon data \<and> impactLon data < 120 \<and> - 50 < impactLat data \<and> impactLat data < 20)"
  proof (rule calculateImpact_same_flag)
    show "isOceanImpact (impactLat data) (impactLon data) r1
        = isOceanImpact (impactLat data) (impactLon data) r2"
      using that isOceanImpact_in_box [of "impactLon data" "impactLat data"] by simp
  qed
  then show ?thesis by (simp add: calculateImpact_fields)
qed

text \<open>An instance in the Pacific box, with two different draws.\<close>

theorem calculateImpact_reproducible_witness:
  "calculateImpact \<lparr>diameter = 500, velocity = 20, angle = 45, impactLat = 0, impactLon = 150\<rparr> 0.5
   = calculateImpact \<lparr>diameter = 500, velocity = 20, angle = 45, impactLat = 0, impactLon = 150\<rparr> 0.9"
  using calculateImpact_reproducible
    [of "\<lparr>diameter = 500, velocity = 20, angle = 45, impactLat = 0, impactLon = 150\<rparr>" "0.5" "0.9"]
  by simp

text \<open>
  The crater diameter is not reproducible outside the boxes: at latitude 0, longitude 0
  the draw 0.5 gives an ocean impact (terrain factor 0.8) and the draw 0.9 a land impact
  (terrain factor 1.0), and the two crater diameters differ.
\<close>

theorem craterDiameter_differs_between_draws:
  "craterDiameter (calculateImpact
      \<lparr>diameter = 500, velocity = 20, angle = 45, impactLat = 0, impactLon = 0\<rparr> 0.5)
   \<noteq> craterDiameter (calculateImpact
      \<lparr>diameter = 500, velocity = 20, angle = 45, impactLat = 0, impactLon = 0\<rparr> 0.9)"
proof -
  have "0 < calculateMass 500" by (rule calculateMass_pos) simp
  then have "0 < calculateEnergy (calculateMass 500) 20" by (rule calculateEnergy_pos) simp
  then have "0 < calculateCraterDiameter (calculateEnergy (calculateMass 500) 20) 20 45 False"
    by (rule calculateCraterDiameter_pos) simp_all
  then have "calculateCraterDiameter (calculateEnergy (calculateMass 500) 20) 20 45 True
      \<noteq> calculateCraterDiameter (calculateEnergy (calculateMass 500) 20) 20 45 False"
    unfolding calculateCraterDiameter_ocean by simp
  moreover have "isOceanImpact 0 0 0.5" and "\<not> isOceanImpact 0 0 0.9"
    by (simp_all add: isOceanImpact_def EARTH_OCEAN_COVERAGE_def)
  ultimately show ?thesis by (simp add: calculateImpact_fields)
qed

subsection \<open>Monotonicity in the diameter\<close>






subsection \<open>Ocean determination\<close>

text \<open>
  C6. For every latitude and longitude inside one of the three ocean bounding boxes
  (Pacific: lon > 120 or lon < -70, with |lat| < 60; Atlantic: -70 < lon < -10 with
  |lat| < 60; Indian: 40 < lon < 120 with -50 < lat < 20), \<open>isOceanImpact\<close> returns true
  whatever the random draw. In particular it is true at (0, 150) on every call, whereas at
  (0, 0) the result is the outcome of the draw against the ocean coverage 0.71.
\<close>

theorem isOceanImpact_boxes:
  "(((lon > 120 \<or> lon < - 70) \<and> \<bar>lat\<bar> < 60)
      \<or> (- 70 < lon \<and> lon < - 10 \<and> \<bar>lat\<bar> < 60)
      \<or> (40 < lon \<and> lon < 120 \<and> - 50 < lat \<and> lat < 20)
     \<longrightarrow> isOceanImpact lat lon rnd)
   \<and> isOceanImpact 0 150 rnd
   \<and> isOceanImpact 0 0 rnd = (rnd < 0.71)"
  by (auto simp add: isOceanImpact_def EARTH_OCEAN_COVERAGE_def)

text \<open>An instance in the Atlantic box, with a draw above the ocean coverage.\<close>

theorem isOceanImpact_boxes_witness:
  "isOceanImpact 0 (- 40) (99 / 100) \<and> isOceanImpact 0 150 (99 / 100)
   \<and> isOceanImpact 0 0 (99 / 100) = ((99 / 100 :: real) < 0.71)"
  using isOceanImpact_boxes [of "- 40" 0 "99 / 100"] by simp

subsection \<open>Tsunami height and crater depth\<close>

text \<open>
  C7. For every AsteroidData input, the result of \<open>calculateImpact\<close> contains a
  tsunamiHeight if and only if its isOceanImpact flag is true.
\<close>

theorem tsunamiHeight_iff_ocean:
  "tsunamiHeight (calculateImpact data rnd) \<noteq> None
     \<longleftrightarrow> isOceanImpactFlag (calculateImpact data rnd)"
  by (simp add: calculateImpact_def Let_def)

text \<open>
  C8. For every crater diameter d, \<open>calculateCraterDepth d = d / 4\<close>, and for every
  AsteroidData input the result of \<open>calculateImpact\<close> has craterDepth = craterDiameter / 4.
\<close>

theorem craterDepth_quarter:
  "calculateCraterDepth d = d / 4
   \<and> craterDepth (calculateImpact data rnd) = craterDiameter (calculateImpact data rnd) / 4"
  by (simp add: calculateImpact_def calculateCraterDepth_def Let_def)

subsection \<open>Affected population\<close>

text \<open>Signs and zeros of the binary64 operations that compute the affected area.\<close>

lemma round_f64_cases:
  "round_f64 s M E = Inf s \<or> (\<exists>m e. round_f64 s M E = Fin s m e)"
  by (simp add: round_f64_def Let_def)

lemma round_f64_0: "round_f64 s 0 E = Fin s 0 (- 1074)"
  by (simp add: round_f64_def)

lemma num_0: "num 0 = Fin False 0 (- 1074)"
  by (simp add: num_def round_f64_0)

lemma fmul_zero:
  "fmul (num 0) x = (case x of Fin b m e \<Rightarrow> Fin b 0 (- 1074) | Inf b \<Rightarrow> NaN | NaN \<Rightarrow> NaN)"
  by (cases x) (simp_all add: num_0 round_f64_def)

lemma Math_pow_f64_square_cases:
  "Math_pow_f64 x 2 = NaN \<or> Math_pow_f64 x 2 = Inf False \<or> (\<exists>m e. Math_pow_f64 x 2 = Fin False m e)"
proof (cases x)
  case (Fin s m e)
  then show ?thesis using round_f64_cases [of False "m ^ 2" "e * 2"] by auto
qed simp_all

lemma affectedArea_cases:
  "fmul Math_PI_f64 (Math_pow_f64 x 2) = NaN \<or> fmul Math_PI_f64 (Math_pow_f64 x 2) = Inf False
   \<or> (\<exists>m e. fmul Math_PI_f64 (Math_pow_f64 x 2) = Fin False m e)"
proof -
  consider "Math_pow_f64 x 2 = NaN" | "Math_pow_f64 x 2 = Inf False"
    | m e where "Math_pow_f64 x 2 = Fin False m e"
    using Math_pow_f64_square_cases [of x] by blast
  then show ?thesis
  proof cases
    case 1
    then show ?thesis by (simp add: Math_PI_f64_def)
  next
    case 2
    then show ?thesis by (simp add: Math_PI_f64_def)
  next
    case 3
    then show ?thesis
      using round_f64_cases [of False "7074237752028440 * m" "- 51 + e"]
      by (auto simp add: Math_PI_f64_def)
  qed
qed

lemma polar_region_density:
  assumes "fge (Math_abs_f64 lat) (num 60)"
  shows "\<not> flt (Math_abs_f64 lat) (num 60)"
  using assms by (auto simp add: fge_def flt_def)

lemma ocean_density: "map_of populationDensities_f64 ''ocean'' = Some (num 0)"
  by (simp add: populationDensities_f64_def)

lemma falsy_zero: "falsy (num 0)"
  by (simp add: falsy_def num_0)

lemma Math_round_f64_zero: "Math_round_f64 (Fin False 0 (- 1074)) = Fin False 0 (- 1074)"
  by simp

text \<open>
  C10. For every latitude with |lat| >= 60 and every longitude, shockwave radius and
  thermal radius, the region stays 'ocean' with density 0, and
  \<open>estimateAffectedPopulation\<close> returns 0 whenever the affected area
  \<open>Math.PI * Math.pow(Math.max(shockwaveRadius, thermalRadius), 2)\<close> is a finite number.
  When the area overflows to Infinity (a radius from about 7.6e153 km) or is NaN, the
  product \<open>0 * area\<close> is NaN and the result is NaN.
\<close>

theorem polar_population_f64:
  assumes "fge (Math_abs_f64 lat) (num 60)"
  shows "estimateAffectedPopulation_f64 lat lon s t =
           (case fmul Math_PI_f64 (Math_pow_f64 (Math_max_f64 s t) 2) of
              Fin b m e \<Rightarrow> num 0
            | Inf b \<Rightarrow> NaN
            | NaN \<Rightarrow> NaN)"
proof -
  let ?area = "fmul Math_PI_f64 (Math_pow_f64 (Math_max_f64 s t) 2)"
  have r: "estimateAffectedPopulation_f64 lat lon s t = Math_round_f64 (fmul (num 0) ?area)"
    using polar_region_density [OF assms]
    by (simp add: estimateAffectedPopulation_f64_def ocean_density falsy_zero Let_def)
  consider "?area = NaN" | "?area = Inf False" | m e where "?area = Fin False m e"
    using affectedArea_cases [of "Math_max_f64 s t"] by blast
  then show ?thesis
  proof cases
    case 1
    then show ?thesis unfolding r by (simp add: fmul_zero)
  next
    case 2
    then show ?thesis unfolding r by (simp add: fmul_zero)
  next
    case 3
    then show ?thesis unfolding r by (simp add: num_0 round_f64_0)
  qed
qed

text \<open>An instance at latitude 75, longitude 10, with radii 1000 km and 2000 km.\<close>

theorem polar_population_f64_witness:
  "estimateAffectedPopulation_f64 (num 75) (num 10) (num 1000) (num 2000) = num 0"
proof -
  have h: "fge (Math_abs_f64 (num 75)) (num 60)" by code_simp
  have a: "(case fmul Math_PI_f64 (Math_pow_f64 (Math_max_f64 (num 1000) (num 2000)) 2) of
              Fin b m e \<Rightarrow> num 0
            | Inf b \<Rightarrow> NaN
            | NaN \<Rightarrow> NaN) = num 0"
    by code_simp
  show ?thesis
    using polar_population_f64 [OF h, of "num 10" "num 1000" "num 2000"] a by simp
qed

text \<open>
  With a shockwave radius of 1e154 km the square is about 1e308, the area overflows and
  the population of the polar impact is NaN, not 0.
\<close>

theorem polar_population_f64_overflow:
  "fge (Math_abs_f64 (num 75)) (num 60)
   \<and> estimateAffectedPopulation_f64 (num 75) (num 10) (num (10 ^ 154)) (num 1) = NaN
   \<and> NaN \<noteq> num 0"
  by code_simp

section \<open>Properties of the mitigation calculator\<close>

subsection \<open>Energy reduction of each strategy\<close>









subsection \<open>Absence of a result\<close>

text \<open>
  C3. For every mass, diameter, velocity and warning time, \<open>calculateMitigation\<close> returns no
  result when the strategy is 'none', and this is the only case of absence: each of
  kinetic_impactor, nuclear_device, gravity_tractor and ion_beam returns a result.
\<close>

theorem calculateMitigation_absent_iff_none:
  "(calculateMitigation s m d v w = None \<longleftrightarrow> s = none)
   \<and> calculateMitigation none m d v w = None
   \<and> calculateMitigation kinetic_impactor m d v w \<noteq> None
   \<and> calculateMitigation nuclear_device m d v w \<noteq> None
   \<and> calculateMitigation gravity_tractor m d v w \<noteq> None
   \<and> calculateMitigation ion_beam m d v w \<noteq> None"
  by (cases s) simp_all

subsection \<open>Range of the energy reduction\<close>





text \<open>
  The same input in binary64 gives the same value, and a mass of 1e-305 kg gives a
  velocity change of Infinity and an energy reduction of NaN.
\<close>

lemma kinetic_f64_energyReduction:
  "map_option energyReduction
     (calculateMitigation_f64 kinetic_impactor (num 1) (num 1) (num 1) (num 0))
     = Some (num (- 5623500000))
   \<and> map_option energyReduction
     (calculateMitigation_f64 kinetic_impactor (lit 1 305) (num 1) (num 1) (num 0))
     = Some NaN"
  by code_simp

subsection \<open>Success probability of the kinetic impactor\<close>

text \<open>
  C5. For every warning time, \<open>calculateMitigation\<close> with strategy kinetic_impactor returns
  successProbability = min (warningTime / 5) 0.95; it is 0.95 at 100 years and never
  exceeds 0.95.
\<close>

theorem kinetic_impactor_successProbability:
  "map_option successProbability (calculateMitigation kinetic_impactor m d v w)
     = Some (min (w / 5) 0.95)
   \<and> map_option successProbability (calculateMitigation kinetic_impactor m d v 100) = Some 0.95
   \<and> (\<exists>r. calculateMitigation kinetic_impactor m d v w = Some r \<and> successProbability r \<le> 0.95)"
  by (simp add: calculateKineticImpactor_def Let_def)

subsection \<open>The gravity tractor and the asteroid's mass\<close>

text \<open>
  In exact arithmetic the force is proportional to the asteroid's mass and is divided by
  the same mass, so the result does not depend on the mass.
\<close>

lemma gravity_tractor_exact_mass_independent:
  assumes "0 < m1" and "0 < m2"
  shows "calculateMitigation gravity_tractor m1 d v w = calculateMitigation gravity_tractor m2 d v w
    \<and> map_option velocityChange (calculateMitigation gravity_tractor m1 d v w)
        = Some (6.674 / 10 ^ 11 * 1000 / 100 ^ 2 * (w * 365.25 * 24 * 3600))"
  using assms by (simp add: calculateGravityTractor_def Let_def)




end
